theory Spec2Isabelle
  imports Main
begin

section \<open>Exceptions, outcomes of collaborator calls, log records\<close>

text \<open>
  The launcher of \<^verbatim>\<open>src/dax/launcher.py\<close> drives three phases (build, update, launch)
  over collaborators that are not part of the file: the cluster adapter, the tasks, the
  processors and the metadata store. A call of a collaborator either returns a value or
  raises; an exception object carries the class and the message that the launcher logs.
\<close>

record pyexc =
  exc_class :: string
  exc_message :: string

datatype 'a outcome = Returns 'a | Raises pyexc

text \<open>The exceptions that leave a method of the launcher.\<close>

datatype exn =
    NameError
  | ClusterLaunchException
  | ClusterCountJobsException
  | DaxLauncherError string
  | DaxXnatError string
  | ValueError
  | OverflowError
  | KeyError string
  | OSError
  | TypeError
  | Propagated pyexc

datatype log_level = Warn | Error | Critical

section \<open>The Launcher object\<close>

text \<open>
  The fields \<^verbatim>\<open>__init__\<close> stores. The two project dictionaries map a project id to its
  list of processors and modules.
\<close>

record ('p, 'm) launcher =
  queue_limit :: int
  root_job_dir :: string
  project_process_dict :: "string \<rightharpoonup> 'p list"
  project_modules_dict :: "string \<rightharpoonup> 'm list"
  priority_project :: "string list option"
  job_email :: "string option"
  job_email_options :: string
  max_age :: int
  launcher_type :: string
  skip_lastupdate :: bool
  xnat_host :: string
  xnat_user :: string
  xnat_pass :: string

section \<open>Launch: the admission loop\<close>

text \<open>
  The arguments \<^verbatim>\<open>launch_tasks\<close> passes to \<^verbatim>\<open>cur_task.launch\<close>: in the disk-queue
  launcher types only \<^verbatim>\<open>force_no_qsub\<close>, otherwise the job directory, the e-mail
  settings, the host, \<^verbatim>\<open>writeonly\<close>, \<^verbatim>\<open>pbsdir\<close> and \<^verbatim>\<open>force_no_qsub\<close>.
\<close>

datatype launch_args =
    DiskqLaunch bool
  | StoreLaunch string "string option" string string bool "string option" bool

text \<open>
  The cluster adapter and the tasks as \<^verbatim>\<open>launch_tasks\<close> sees them:
  \<open>count_jobs n\<close> is what the call number \<open>n\<close> (from 0) of
  \<^verbatim>\<open>cluster.count_jobs()\<close> returns, \<open>-1\<close> for a failed read;
  \<open>command_found\<close> is the answer of \<^verbatim>\<open>cluster.command_found\<close>;
  \<open>task_launch t a\<close> is what \<^verbatim>\<open>t.launch(a)\<close> does.
\<close>

record 'task cluster_env =
  count_jobs :: "nat \<Rightarrow> int"
  command_found :: bool
  task_launch :: "'task \<Rightarrow> launch_args \<Rightarrow> bool outcome"

text \<open>
  What a launch does, in order: reads of the job count (with the value read), the query
  for the submit command, calls of a task's \<^verbatim>\<open>launch\<close>, and the log records of level
  warning and above.
\<close>

datatype 'task launch_event =
    CountJobs int
  | CommandFound
  | Launch 'task launch_args
  | Log log_level string

record 'task launch_result =
  raised :: "exn option"
  events :: "'task launch_event list"
  remaining :: "'task list"
  count_calls :: nat

definition launch_call_args ::
  "('p, 'm) launcher \<Rightarrow> bool \<Rightarrow> string option \<Rightarrow> bool \<Rightarrow> launch_args" where
  "launch_call_args L writeonly pbsdir force_no_qsub =
     (if launcher_type L \<in> set [''diskq-cluster'', ''diskq-combined'']
      then DiskqLaunch force_no_qsub
      else StoreLaunch (root_job_dir L) (job_email L) (job_email_options L) (xnat_host L)
             writeonly pbsdir force_no_qsub)"

text \<open>
  The \<^verbatim>\<open>try\<close> around \<^verbatim>\<open>cur_task.launch\<close>: an exception is logged twice at critical
  level and counts as \<^verbatim>\<open>success = False\<close>.
\<close>

definition launch_success :: "bool outcome \<Rightarrow> bool" where
  "launch_success r = (case r of Returns b \<Rightarrow> b | Raises E \<Rightarrow> False)"

definition launch_logs :: "string \<Rightarrow> bool outcome \<Rightarrow> 'task launch_event list" where
  "launch_logs lbl r =
     (case r of
        Returns b \<Rightarrow> []
      | Raises E \<Rightarrow>
          [Log Critical (''Caught exception launching job '' @ lbl),
           Log Critical (''Exception class '' @ exc_class E @ '' caught with message ''
                         @ exc_message E)])"

text \<open>
  The \<^verbatim>\<open>while\<close> loop of \<^verbatim>\<open>launch_tasks\<close>. \<open>cjobs\<close> is the local variable of that
  name: \<open>None\<close> while it is unbound, and then reading it in the loop condition raises
  \<^verbatim>\<open>NameError\<close> before \<^verbatim>\<open>writeonly\<close> or the task list are looked at. The loop pops
  the last task of the list. The count read after a submission is stored in
  \<^verbatim>\<open>cur_job_count\<close>, a different variable: \<open>cjobs\<close> is passed on unchanged.
  \<open>ncalls\<close> counts the calls of \<^verbatim>\<open>cluster.count_jobs()\<close> made so far and
  \<open>label\<close> gives a task's \<^verbatim>\<open>assessor_label\<close>.
\<close>

function launch_loop ::
  "('p, 'm) launcher \<Rightarrow> 'task cluster_env \<Rightarrow> ('task \<Rightarrow> string) \<Rightarrow> bool \<Rightarrow> string option \<Rightarrow> bool
   \<Rightarrow> int option \<Rightarrow> nat \<Rightarrow> 'task list \<Rightarrow> 'task launch_event list \<Rightarrow> 'task launch_result"
where
  "launch_loop L C label writeonly pbsdir force_no_qsub cjobs ncalls task_list tr =
     (case cjobs of
        None \<Rightarrow> \<lparr>raised = Some NameError, events = tr, remaining = task_list,
                 count_calls = ncalls\<rparr>
      | Some c \<Rightarrow>
          if (c < queue_limit L \<or> writeonly) \<and> length task_list > 0 then
            (let cur_task = last task_list;
                 args = launch_call_args L writeonly pbsdir force_no_qsub;
                 res = task_launch C cur_task args;
                 tr1 = tr @ [Launch cur_task args] @ launch_logs (label cur_task) res
             in if \<not> launch_success res then
                  \<lparr>raised = Some ClusterLaunchException,
                   events = tr1 @ [Log Error ''ERROR: failed to launch job''],
                   remaining = butlast task_list, count_calls = ncalls\<rparr>
                else
                  (let cur_job_count = count_jobs C ncalls;
                       tr2 = tr1 @ [CountJobs cur_job_count]
                   in if cur_job_count = -1 then
                        \<lparr>raised = Some ClusterCountJobsException,
                         events = tr2 @ [Log Error ''ERROR: cannot get count of jobs from cluster''],
                         remaining = butlast task_list, count_calls = Suc ncalls\<rparr>
                      else launch_loop L C label writeonly pbsdir force_no_qsub cjobs
                             (Suc ncalls) (butlast task_list) tr2))
          else \<lparr>raised = None, events = tr, remaining = task_list, count_calls = ncalls\<rparr>)"
  by pat_completeness auto
termination
  by (relation "measure (\<lambda>(L, C, label, writeonly, pbsdir, force_no_qsub, cjobs, ncalls,
                            task_list, tr). length task_list)") auto

text \<open>
  \<^verbatim>\<open>launch_tasks\<close>: with \<^verbatim>\<open>force_no_qsub\<close> nothing is read from the cluster and
  \<open>cjobs\<close> stays unbound; otherwise the job count is read once, a failed read is logged
  and the method returns, and a successful read is kept in \<open>cjobs\<close>.
\<close>

definition launch_tasks ::
  "('p, 'm) launcher \<Rightarrow> 'task cluster_env \<Rightarrow> ('task \<Rightarrow> string) \<Rightarrow> 'task list \<Rightarrow> bool
   \<Rightarrow> string option \<Rightarrow> bool \<Rightarrow> 'task launch_result" where
  "launch_tasks L C label task_list writeonly pbsdir force_no_qsub =
     (if force_no_qsub then
        launch_loop L C label writeonly pbsdir force_no_qsub None 0 task_list []
      else
        (let cjobs = count_jobs C 0 in
         if cjobs = -1 then
           \<lparr>raised = None,
            events = [CountJobs cjobs, Log Error ''cannot get count of jobs from cluster''],
            remaining = task_list, count_calls = 1\<rparr>
         else
           launch_loop L C label writeonly pbsdir force_no_qsub (Some cjobs) 1 task_list
             [CountJobs cjobs, CommandFound]))"




text \<open>
  The admission property as the specification words it: immediately before every
  submission, the job count read last from the cluster is strictly below the limit.
  \<open>cur\<close> is the count read last, \<open>None\<close> before the first read.
\<close>

fun admission_respected :: "int \<Rightarrow> int option \<Rightarrow> 'task launch_event list \<Rightarrow> bool" where
  "admission_respected lim cur [] = True"
| "admission_respected lim cur (CountJobs n # es) = admission_respected lim (Some n) es"
| "admission_respected lim cur (Launch t a # es) =
     ((case cur of None \<Rightarrow> False | Some c \<Rightarrow> c < lim) \<and> admission_respected lim cur es)"
| "admission_respected lim cur (e # es) = admission_respected lim cur es"


section \<open>Update: reconciling the open tasks\<close>




section \<open>Statuses, assessors, sessions and processors\<close>

text \<open>
  Modelled from the spec: the status constants of \<^verbatim>\<open>task.py\<close> (\<^verbatim>\<open>task.NEED_INPUTS\<close>,
  \<^verbatim>\<open>task.RERUN\<close>, ...), which are not in the source file. The specification lists the
  values of ProcStatus and QcStatus; \<open>OtherProc\<close> and \<open>OtherQc\<close> stand for any other
  value the store holds.
\<close>

datatype proc_status =
  NEED_INPUTS | NEED_TO_RUN | JOB_RUNNING | COMPLETE | JOB_FAILED | NO_DATA | OtherProc string

datatype qc_status =
  JOB_PENDING | NEEDS_QC | PASSED | RERUN | REPROC | DATA_ABSENT | OtherQc string

text \<open>The dictionaries the store lists: an assessor record and a session record.\<close>

record assr_info =
  a_label :: string
  a_assessor_label :: string
  a_xsiType :: string
  a_proctype :: string
  a_procstatus :: proc_status
  a_qcstatus :: qc_status
  a_session_label :: string

record sess_info =
  s_label :: string
  s_session_label :: string
  s_xsiType :: string
  s_last_modified :: string
  s_last_updated :: string

record scan_info =
  sc_scan_id :: string
  sc_session_label :: string

text \<open>The cached views of a session and of a scan, with the assessors of the session.\<close>

record cached_session =
  cs_info :: sess_info
  cs_assessors :: "assr_info list"

record cached_scan =
  cscan_info :: scan_info
  cscan_parent :: cached_session

text \<open>
  A processor: the two attributes that matching reads, and the methods the build calls.
  \<open>'i\<close> is the info dictionary \<^verbatim>\<open>should_run\<close> receives, \<open>'c\<close> the cached object the
  other methods receive. \<open>get_task\<close> gives the assessor label of the task it returns;
  \<open>has_inputs\<close> gives the readiness (1 ready, -1 permanently blocked, anything else
  pending) and a QC status.
\<close>

record proc_key =
  name :: string
  xsitype :: string

record ('i, 'c) processor = proc_key +
  should_run :: "'i \<Rightarrow> bool"
  get_assessor_name :: "'c \<Rightarrow> string"
  get_task :: "'c \<Rightarrow> string"
  has_inputs :: "'c \<Rightarrow> int \<times> qc_status"

section \<open>Matching assessors to processors\<close>

definition match_proc ::
  "assr_info \<Rightarrow> 'z proc_key_scheme list \<Rightarrow> 'z proc_key_scheme list
   \<Rightarrow> 'z proc_key_scheme option" where
  "match_proc assr_info sess_proc_list scan_proc_list =
     (case find (\<lambda>sess_proc. xsitype sess_proc = a_xsiType assr_info
                            \<and> name sess_proc = a_proctype assr_info) sess_proc_list of
        Some sess_proc \<Rightarrow> Some sess_proc
      | None \<Rightarrow>
          find (\<lambda>scan_proc. xsitype scan_proc = a_xsiType assr_info
                           \<and> name scan_proc = a_proctype assr_info) scan_proc_list)"

text \<open>A task binds the matched processor to the assessor.\<close>

datatype 'p task = Task 'p assr_info

type_synonym log_record = "log_level \<times> string"

definition generate_task ::
  "assr_info \<Rightarrow> 'z proc_key_scheme list \<Rightarrow> 'z proc_key_scheme list
   \<Rightarrow> 'z proc_key_scheme task option \<times> log_record list" where
  "generate_task assr_info sess_proc_list scan_proc_list =
     (case match_proc assr_info sess_proc_list scan_proc_list of
        None \<Rightarrow> (None, [(Warn, ''no matching processor found: ''
                                  @ a_assessor_label assr_info)])
      | Some task_proc \<Rightarrow> (Some (Task task_proc assr_info), []))"

definition is_launchable_tasks :: "assr_info \<Rightarrow> bool" where
  "is_launchable_tasks assr_info = (a_procstatus assr_info = NEED_TO_RUN)"

text \<open>
  The loop of \<^verbatim>\<open>get_project_tasks\<close> over the assessors of the project: the tasks
  appended, and the warnings logged, in order.
\<close>

fun get_project_tasks ::
  "(assr_info \<Rightarrow> bool) \<Rightarrow> 'z proc_key_scheme list \<Rightarrow> 'z proc_key_scheme list
   \<Rightarrow> assr_info list \<Rightarrow> 'z proc_key_scheme task list \<times> log_record list" where
  "get_project_tasks is_valid_assessor sess_procs scan_procs [] = ([], [])"
| "get_project_tasks is_valid_assessor sess_procs scan_procs (assr_info # assr_list) =
     (case get_project_tasks is_valid_assessor sess_procs scan_procs assr_list of
        (task_list, logs) \<Rightarrow>
          if is_valid_assessor assr_info then
            (case generate_task assr_info sess_procs scan_procs of
               (Some cur_task, w) \<Rightarrow> (cur_task # task_list, w @ logs)
             | (None, w) \<Rightarrow> (task_list, w @ logs))
          else (task_list, logs))"



section \<open>Build: the decision per processor\<close>

text \<open>
  The collaborators of the build that act on a task, each named by the assessor label of
  the task: the status refresh and the build of a DiskQ task, and the two setters of the
  store. What the build does is recorded in order; a setter is recorded when it returned.
\<close>

record build_env =
  xtask_update_status :: "string \<Rightarrow> unit outcome"
  xtask_build_task :: "string \<Rightarrow> (proc_status \<times> qc_status) outcome"
  set_status :: "string \<Rightarrow> proc_status \<Rightarrow> unit outcome"
  set_qcstatus :: "string \<Rightarrow> qc_status \<Rightarrow> unit outcome"

datatype build_event =
    TaskUpdateStatus string
  | BuildTask string
  | SetStatus string proc_status
  | SetQcStatus string qc_status
  | Logged log_level string

text \<open>
  The disk-queue branch once its condition holds: the task is refreshed first when the
  existing assessor has QC status RERUN or REPROC, then built. Neither call stands in a
  \<^verbatim>\<open>try\<close>: an exception leaves the method.
\<close>

definition diskq_build ::
  "build_env \<Rightarrow> string \<Rightarrow> assr_info option \<Rightarrow> exn option \<times> build_event list" where
  "diskq_build env assr_name p_assr =
     (if (case p_assr of None \<Rightarrow> False
          | Some a \<Rightarrow> a_qcstatus a \<in> set [RERUN, REPROC]) then
        (case xtask_update_status env assr_name of
           Raises E \<Rightarrow> (Some (Propagated E), [TaskUpdateStatus assr_name])
         | Returns u \<Rightarrow>
             (case xtask_build_task env assr_name of
                Raises E \<Rightarrow>
                  (Some (Propagated E), [TaskUpdateStatus assr_name, BuildTask assr_name])
              | Returns st \<Rightarrow> (None, [TaskUpdateStatus assr_name, BuildTask assr_name])))
      else
        (case xtask_build_task env assr_name of
           Raises E \<Rightarrow> (Some (Propagated E), [BuildTask assr_name])
         | Returns st \<Rightarrow> (None, [BuildTask assr_name])))"

text \<open>
  The store-direct branch once its condition holds: the \<^verbatim>\<open>try\<close> block that sets the
  statuses from the readiness. An exception of a setter ends the block and is logged twice
  at critical level; \<open>caught\<close> is the first of the two messages, which differs between
  the session level and the scan level.
\<close>

definition try_set_status ::
  "build_env \<Rightarrow> string \<Rightarrow> string \<Rightarrow> proc_status \<Rightarrow> build_event list \<Rightarrow> build_event list" where
  "try_set_status env caught t st rest =
     (case set_status env t st of
        Raises E \<Rightarrow>
          [Logged Critical caught,
           Logged Critical (''Exception class '' @ exc_class E @ '' caught with message ''
                            @ exc_message E)]
      | Returns u \<Rightarrow> SetStatus t st # rest)"

definition try_set_qcstatus ::
  "build_env \<Rightarrow> string \<Rightarrow> string \<Rightarrow> qc_status \<Rightarrow> build_event list \<Rightarrow> build_event list" where
  "try_set_qcstatus env caught t qc rest =
     (case set_qcstatus env t qc of
        Raises E \<Rightarrow>
          [Logged Critical caught,
           Logged Critical (''Exception class '' @ exc_class E @ '' caught with message ''
                            @ exc_message E)]
      | Returns u \<Rightarrow> SetQcStatus t qc # rest)"

definition set_inputs_status ::
  "build_env \<Rightarrow> string \<Rightarrow> string \<Rightarrow> int \<Rightarrow> qc_status \<Rightarrow> build_event list" where
  "set_inputs_status env caught t has_inp qcstatus =
     (if has_inp = 1 then
        try_set_status env caught t NEED_TO_RUN (try_set_qcstatus env caught t JOB_PENDING [])
      else if has_inp = -1 then
        try_set_status env caught t NO_DATA (try_set_qcstatus env caught t qcstatus [])
      else try_set_qcstatus env caught t qcstatus [])"

text \<open>
  The body of the loop of \<^verbatim>\<open>build_session_processors\<close> for one processor. The existing
  assessor is the first of the session with the generated name (the search loop ends with
  \<^verbatim>\<open>break\<close>).
\<close>

definition build_session_processor ::
  "('p, 'm) launcher \<Rightarrow> build_env \<Rightarrow> cached_session \<Rightarrow> (sess_info, cached_session) processor
   \<Rightarrow> exn option \<times> build_event list" where
  "build_session_processor L env csess sess_proc =
     (if \<not> should_run sess_proc (cs_info csess) then (None, [])
      else
        (let assr_name = get_assessor_name sess_proc csess;
             p_assr = find (\<lambda>assr. a_label assr = assr_name) (cs_assessors csess)
         in if launcher_type L \<in> set [''diskq-xnat'', ''diskq-combined''] then
              (if (case p_assr of None \<Rightarrow> True
                   | Some a \<Rightarrow> a_procstatus a = NEED_INPUTS
                              \<or> a_qcstatus a \<in> set [RERUN, REPROC])
               then diskq_build env assr_name p_assr
               else (None, []))
            else
              (if (case p_assr of None \<Rightarrow> True | Some a \<Rightarrow> a_procstatus a = NEED_INPUTS)
               then
                 (case has_inputs sess_proc csess of
                    (has_inp, qcstatus) \<Rightarrow>
                      (None, set_inputs_status env
                         (''Caught exception building session ''
                          @ s_session_label (cs_info csess)
                          @ '' while setting assessor status'')
                         (get_task sess_proc csess) has_inp qcstatus))
               else (None, []))))"

fun build_session_processors ::
  "('p, 'm) launcher \<Rightarrow> build_env \<Rightarrow> cached_session
   \<Rightarrow> (sess_info, cached_session) processor list \<Rightarrow> exn option \<times> build_event list" where
  "build_session_processors L env csess [] = (None, [])"
| "build_session_processors L env csess (sess_proc # sess_proc_list) =
     (case build_session_processor L env csess sess_proc of
        (Some e, es) \<Rightarrow> (Some e, es)
      | (None, es) \<Rightarrow>
          (case build_session_processors L env csess sess_proc_list of
             (r, es') \<Rightarrow> (r, es @ es')))"

text \<open>
  The body of the loop of \<^verbatim>\<open>build_scan_processors\<close>. The search loop over the assessors
  of the parent session has no \<^verbatim>\<open>break\<close>: the existing assessor is the last one with the
  generated name. The disk-queue condition lists two processing statuses.
\<close>

definition build_scan_processor ::
  "('p, 'm) launcher \<Rightarrow> build_env \<Rightarrow> cached_scan \<Rightarrow> (scan_info, cached_scan) processor
   \<Rightarrow> exn option \<times> build_event list" where
  "build_scan_processor L env cscan scan_proc =
     (if \<not> should_run scan_proc (cscan_info cscan) then (None, [])
      else
        (let assr_name = get_assessor_name scan_proc cscan;
             p_assr = find (\<lambda>assr. a_label assr = assr_name)
                        (rev (cs_assessors (cscan_parent cscan)))
         in if launcher_type L \<in> set [''diskq-xnat'', ''diskq-combined''] then
              (if (case p_assr of None \<Rightarrow> True
                   | Some a \<Rightarrow> a_procstatus a \<in> set [NEED_INPUTS, NEED_TO_RUN]
                              \<or> a_qcstatus a \<in> set [RERUN, REPROC])
               then diskq_build env assr_name p_assr
               else (None, []))
            else
              (if (case p_assr of None \<Rightarrow> True | Some a \<Rightarrow> a_procstatus a = NEED_INPUTS)
               then
                 (case has_inputs scan_proc cscan of
                    (has_inp, qcstatus) \<Rightarrow>
                      (None, set_inputs_status env
                         (''Caught exception building sessions ''
                          @ sc_session_label (cscan_info cscan))
                         (get_task scan_proc cscan) has_inp qcstatus))
               else (None, []))))"

fun build_scan_processors ::
  "('p, 'm) launcher \<Rightarrow> build_env \<Rightarrow> cached_scan
   \<Rightarrow> (scan_info, cached_scan) processor list \<Rightarrow> exn option \<times> build_event list" where
  "build_scan_processors L env cscan [] = (None, [])"
| "build_scan_processors L env cscan (scan_proc # scan_proc_list) =
     (case build_scan_processor L env cscan scan_proc of
        (Some e, es) \<Rightarrow> (Some e, es)
      | (None, es) \<Rightarrow>
          (case build_scan_processors L env cscan scan_proc_list of
             (r, es') \<Rightarrow> (r, es @ es')))"



section \<open>Strings and dates of the Python runtime\<close>

text \<open>
  Truth value of an optional string argument (\<^verbatim>\<open>None\<close> and the empty string are
  false), \<^verbatim>\<open>str.lower\<close> on ASCII letters and \<^verbatim>\<open>str.split\<close> on a separator.
\<close>

definition truthy :: "string option \<Rightarrow> bool" where
  "truthy v = (case v of None \<Rightarrow> False | Some x \<Rightarrow> x \<noteq> [])"

definition lower_char :: "char \<Rightarrow> char" where
  "lower_char c =
     (let n = (of_char c :: nat) in if 65 \<le> n \<and> n \<le> 90 then char_of (n + 32) else c)"

definition lower :: "string \<Rightarrow> string" where
  "lower x = map lower_char x"


text \<open>
  A \<^verbatim>\<open>datetime\<close> is the number of microseconds since the first instant of year 1; the
  last instant of year 9999 is \<open>DATETIME_MAX\<close>. A \<^verbatim>\<open>timedelta\<close> is a number of
  microseconds. \<^verbatim>\<open>timedelta(days=n)\<close> raises \<^verbatim>\<open>OverflowError\<close> when \<open>n\<close> has a
  magnitude above 999999999, and so does the sum of a date and a duration that leaves
  the range of dates. \<^verbatim>\<open>datetime.strptime\<close> with the format of the launcher is a
  parameter of the model, \<open>None\<close> when it raises \<^verbatim>\<open>ValueError\<close>.
\<close>

definition DATETIME_MAX :: int where
  "DATETIME_MAX = 3652059 * 86400000000 - 1"

definition timedelta_days :: "int \<Rightarrow> exn + int" where
  "timedelta_days n =
     (if \<bar>n\<bar> > 999999999 then Inl OverflowError else Inr (n * 86400000000))"

definition datetime_add :: "int \<Rightarrow> int \<Rightarrow> exn + int" where
  "datetime_add t d =
     (if 0 \<le> t + d \<and> t + d \<le> DATETIME_MAX then Inr (t + d) else Inl OverflowError)"

section \<open>Build: the staleness policy\<close>

definition UPDATE_PREFIX :: string where
  "UPDATE_PREFIX = ''updated--''"

definition get_lastupdated :: "(string \<Rightarrow> int option) \<Rightarrow> sess_info \<Rightarrow> exn + int option" where
  "get_lastupdated strptime info =
     (let update_time = drop (length UPDATE_PREFIX) (s_last_updated info) in
      if update_time = [] then Inr None
      else (case strptime update_time of
              None \<Rightarrow> Inl ValueError
            | Some t \<Rightarrow> Inr (Some t)))"

text \<open>
  What the loop of \<^verbatim>\<open>build_project\<close> decides for one session before it builds it.
  \<open>now\<close> is \<^verbatim>\<open>datetime.today()\<close>, \<open>has_new\<close> the result of
  \<^verbatim>\<open>has_new_processors\<close>, \<open>sessions_local\<close> the session filter and
  \<open>lastmod_delta\<close> the parsed \<^verbatim>\<open>mod_delta\<close> (a \<^verbatim>\<open>timedelta\<close> is true when it is
  not zero). The conjunction of the first branch is evaluated left to right and stops at
  the first false conjunct. An exception here is outside every \<^verbatim>\<open>try\<close> of
  \<^verbatim>\<open>build_project\<close>.
\<close>

datatype session_action = SkipStale | SkipNotModified | BuildSession

definition session_decision ::
  "('p, 'm) launcher \<Rightarrow> (string \<Rightarrow> int option) \<Rightarrow> int \<Rightarrow> bool \<Rightarrow> string option \<Rightarrow> int option
   \<Rightarrow> sess_info \<Rightarrow> exn + session_action" where
  "session_decision L strptime now has_new sessions_local lastmod_delta info =
     (if \<not> skip_lastupdate L \<and> \<not> has_new \<and> \<not> truthy sessions_local then
        (case strptime (take 19 (s_last_modified info)) of
           None \<Rightarrow> Inl ValueError
         | Some last_mod \<Rightarrow>
             (case get_lastupdated strptime info of
                Inl e \<Rightarrow> Inl e
              | Inr None \<Rightarrow> Inr BuildSession
              | Inr (Some last_up) \<Rightarrow>
                  if last_mod < last_up then
                    (case timedelta_days (max_age L) of
                       Inl e \<Rightarrow> Inl e
                     | Inr d \<Rightarrow>
                         (case datetime_add last_mod d of
                            Inl e \<Rightarrow> Inl e
                          | Inr lim \<Rightarrow> if now < lim then Inr SkipStale else Inr BuildSession))
                  else Inr BuildSession))
      else if (case lastmod_delta of None \<Rightarrow> False | Some d \<Rightarrow> d \<noteq> 0) then
        (case strptime (take 19 (s_last_modified info)) of
           None \<Rightarrow> Inl ValueError
         | Some last_mod \<Rightarrow>
             (case datetime_add last_mod (the lastmod_delta) of
                Inl e \<Rightarrow> Inl e
              | Inr lim \<Rightarrow> if now > lim then Inr SkipNotModified else Inr BuildSession))
      else Inr BuildSession)"

text \<open>
  The loop over the sessions: \<open>clock k\<close> is \<^verbatim>\<open>datetime.today()\<close> at the session
  number \<open>k\<close>. Exceptions of \<^verbatim>\<open>build_session\<close> and of
  \<^verbatim>\<open>set_session_lastupdated\<close> are caught in the loop, so only the decision can end it.
\<close>

fun build_project_sessions ::
  "('p, 'm) launcher \<Rightarrow> (string \<Rightarrow> int option) \<Rightarrow> (nat \<Rightarrow> int) \<Rightarrow> bool \<Rightarrow> string option
   \<Rightarrow> int option \<Rightarrow> nat \<Rightarrow> sess_info list \<Rightarrow> exn option \<times> (string \<times> session_action) list"
where
  "build_project_sessions L strptime clock has_new sessions_local lastmod_delta k [] =
     (None, [])"
| "build_project_sessions L strptime clock has_new sessions_local lastmod_delta k
     (info # sessions) =
     (case session_decision L strptime (clock k) has_new sessions_local lastmod_delta info of
        Inl e \<Rightarrow> (Some e, [])
      | Inr act \<Rightarrow>
          (case build_project_sessions L strptime clock has_new sessions_local lastmod_delta
                  (Suc k) sessions of
             (r, acts) \<Rightarrow> (r, (s_label info, act) # acts)))"

section \<open>Build: the order of the sessions\<close>



section \<open>Construction of the launcher\<close>

text \<open>
  The arguments of \<^verbatim>\<open>__init__\<close>, and what it reads from outside: the global settings,
  the environment, the netrc file, and whether \<^verbatim>\<open>check_dir\<close> raises on a directory
  (a path is the list of the components joined).
\<close>

record ('p, 'm) init_args =
  arg_project_process_dict :: "string \<rightharpoonup> 'p list"
  arg_project_modules_dict :: "string \<rightharpoonup> 'm list"
  arg_priority_project :: "string list option"
  arg_queue_limit :: int
  arg_root_job_dir :: string
  arg_xnat_user :: "string option"
  arg_xnat_pass :: "string option"
  arg_xnat_host :: "string option"
  arg_job_email :: "string option"
  arg_job_email_options :: string
  arg_max_age :: int
  arg_launcher_type :: string
  arg_skip_lastupdate :: "string option"

record sys_env =
  get_max_age :: int
  get_results_dir :: string
  check_dir_raises :: "string list \<Rightarrow> bool"
  environ_XNAT_HOST :: "string option"
  netrc_get_login :: "string \<Rightarrow> string \<times> string"

definition init_dirs :: "string \<Rightarrow> string \<Rightarrow> string list list" where
  "init_dirs res_dir ltype =
     (if ltype \<in> set [''diskq-xnat'', ''diskq-cluster'', ''diskq-combined''] then
        [[res_dir, ''DISKQ''], [res_dir, ''DISKQ'', ''INPUTS''], [res_dir, ''DISKQ'', ''OUTLOG''],
         [res_dir, ''DISKQ'', ''BATCH''], [res_dir, ''FlagFiles'']]
      else [[res_dir], [res_dir, ''FlagFiles''], [res_dir, ''OUTLOG''], [res_dir, ''PBS'']])"

definition init_skip_lastupdate :: "string option \<Rightarrow> bool" where
  "init_skip_lastupdate v =
     (if \<not> truthy v \<or> \<not> (case lower (the v) of [] \<Rightarrow> False | c # cs \<Rightarrow> c = CHR ''y'')
      then False else True)"

text \<open>
  \<^verbatim>\<open>Launcher.__init__\<close>. The stored \<open>max_age\<close> is read from the settings. With a user
  and no password, the prompt is formatted from one placeholder and two values, which
  raises \<^verbatim>\<open>TypeError\<close>.
\<close>

definition Launcher_init :: "sys_env \<Rightarrow> ('p, 'm) init_args \<Rightarrow> exn + ('p, 'm) launcher" where
  "Launcher_init E A =
     (if list_ex (check_dir_raises E) (init_dirs (get_results_dir E) (arg_launcher_type A))
      then Inl OSError
      else
        (let mods = (\<lambda>proj. case arg_project_modules_dict A proj of
                        Some m \<Rightarrow> Some m
                      | None \<Rightarrow> (case arg_project_process_dict A proj of
                                   Some ps \<Rightarrow> Some []
                                 | None \<Rightarrow> None));
             procs = (\<lambda>proj. case arg_project_process_dict A proj of
                         Some ps \<Rightarrow> Some ps
                       | None \<Rightarrow> (case mods proj of Some m \<Rightarrow> Some [] | None \<Rightarrow> None))
         in case (if truthy (arg_xnat_host A) then arg_xnat_host A else environ_XNAT_HOST E) of
              None \<Rightarrow> Inl (KeyError ''XNAT_HOST'')
            | Some host \<Rightarrow>
                (case (if \<not> truthy (arg_xnat_user A) then Inr (netrc_get_login E host)
                       else if \<not> truthy (arg_xnat_pass A) then Inl TypeError
                       else Inr (the (arg_xnat_user A), the (arg_xnat_pass A))) of
                   Inl e \<Rightarrow> Inl e
                 | Inr (user, password) \<Rightarrow>
                     Inr \<lparr>queue_limit = arg_queue_limit A,
                          root_job_dir = arg_root_job_dir A,
                          project_process_dict = procs,
                          project_modules_dict = mods,
                          priority_project = arg_priority_project A,
                          job_email = arg_job_email A,
                          job_email_options = arg_job_email_options A,
                          max_age = get_max_age E,
                          launcher_type = arg_launcher_type A,
                          skip_lastupdate = init_skip_lastupdate (arg_skip_lastupdate A),
                          xnat_host = host,
                          xnat_user = user,
                          xnat_pass = password\<rparr>)))"



section \<open>Concrete inputs\<close>

text \<open>
  Small inputs on which the definitions are evaluated: a launcher with a given queue
  limit and type, a cluster whose tasks all launch, three sequences of job counts, and
  an exception object.
\<close>

definition demo_launcher :: "int \<Rightarrow> string \<Rightarrow> (unit, unit) launcher" where
  "demo_launcher lim ltype =
     \<lparr>queue_limit = lim, root_job_dir = ''/jobs'',
      project_process_dict = Map.empty, project_modules_dict = Map.empty,
      priority_project = None, job_email = None, job_email_options = ''bae'',
      max_age = 7, launcher_type = ltype, skip_lastupdate = False,
      xnat_host = ''http://xnat'', xnat_user = ''user'', xnat_pass = ''pw''\<rparr>"

definition demo_cluster :: "(nat \<Rightarrow> int) \<Rightarrow> string cluster_env" where
  "demo_cluster cnt =
     \<lparr>count_jobs = cnt, command_found = True, task_launch = (\<lambda>t a. Returns True)\<rparr>"

definition counts_rising :: "nat \<Rightarrow> int" where
  "counts_rising n = (if n = 0 then 0 else 1)"



definition task_label :: "string \<Rightarrow> string" where
  "task_label t = t"

definition demo_exc :: pyexc where
  "demo_exc = \<lparr>exc_class = ''XnatError'', exc_message = ''timeout''\<rparr>"



text \<open>
  A build environment whose calls all return, a session with one assessor \<open>x\<close> of given
  statuses, a scan of that session, and a processor of each level that runs everywhere,
  names its assessor \<open>x\<close> and reports a given readiness.
\<close>

definition demo_build_env :: build_env where
  "demo_build_env =
     \<lparr>xtask_update_status = (\<lambda>n. Returns ()),
      xtask_build_task = (\<lambda>n. Returns (NEED_TO_RUN, JOB_PENDING)),
      set_status = (\<lambda>t st. Returns ()),
      set_qcstatus = (\<lambda>t qc. Returns ())\<rparr>"

definition demo_assr :: "string \<Rightarrow> string \<Rightarrow> proc_status \<Rightarrow> qc_status \<Rightarrow> assr_info" where
  "demo_assr lbl ptype ps qs =
     \<lparr>a_label = lbl, a_assessor_label = lbl, a_xsiType = ''proc:genProcData'',
      a_proctype = ptype, a_procstatus = ps, a_qcstatus = qs, a_session_label = ''s1''\<rparr>"

definition demo_sess :: "string \<Rightarrow> string \<Rightarrow> string \<Rightarrow> sess_info" where
  "demo_sess lbl last_mod last_up =
     \<lparr>s_label = lbl, s_session_label = lbl, s_xsiType = ''xnat:mrSessionData'',
      s_last_modified = last_mod, s_last_updated = last_up\<rparr>"

definition demo_csess :: "proc_status \<Rightarrow> qc_status \<Rightarrow> cached_session" where
  "demo_csess ps qs =
     \<lparr>cs_info = demo_sess ''s1'' ''2020-01-01 00:00:00.0'' [],
      cs_assessors = [demo_assr ''x'' ''T'' ps qs]\<rparr>"

definition demo_cscan :: "proc_status \<Rightarrow> qc_status \<Rightarrow> cached_scan" where
  "demo_cscan ps qs =
     \<lparr>cscan_info = \<lparr>sc_scan_id = ''301'', sc_session_label = ''s1''\<rparr>,
      cscan_parent = demo_csess ps qs\<rparr>"

definition demo_sess_proc :: "int \<Rightarrow> qc_status \<Rightarrow> (sess_info, cached_session) processor" where
  "demo_sess_proc h q =
     \<lparr>name = ''T'', xsitype = ''proc:genProcData'', should_run = (\<lambda>i. True),
      get_assessor_name = (\<lambda>c. ''x''), get_task = (\<lambda>c. ''x''), has_inputs = (\<lambda>c. (h, q))\<rparr>"

definition demo_scan_proc :: "int \<Rightarrow> qc_status \<Rightarrow> (scan_info, cached_scan) processor" where
  "demo_scan_proc h q =
     \<lparr>name = ''T'', xsitype = ''proc:genProcData'', should_run = (\<lambda>i. True),
      get_assessor_name = (\<lambda>c. ''x''), get_task = (\<lambda>c. ''x''), has_inputs = (\<lambda>c. (h, q))\<rparr>"

text \<open>A build environment whose QC setter raises, the other calls returning.\<close>

definition demo_build_env_qc_fails :: build_env where
  "demo_build_env_qc_fails =
     \<lparr>xtask_update_status = (\<lambda>n. Returns ()),
      xtask_build_task = (\<lambda>n. Returns (NEED_TO_RUN, JOB_PENDING)),
      set_status = (\<lambda>t st. Returns ()),
      set_qcstatus = (\<lambda>t qc. Raises demo_exc)\<rparr>"

text \<open>Processors told apart by a number, for matching.\<close>

definition demo_proc :: "string \<Rightarrow> string \<Rightarrow> nat \<Rightarrow> nat proc_key_scheme" where
  "demo_proc pname xtype k = \<lparr>name = pname, xsitype = xtype, \<dots> = k\<rparr>"

text \<open>
  A parser of the two timestamps used below, in microseconds, and a moment one day after
  the first of them.
\<close>

definition demo_strptime :: "string \<Rightarrow> int option" where
  "demo_strptime x =
     (if x = ''2020-01-01 00:00:00'' then Some 63713433600000000
      else if x = ''2020-01-02 00:00:00'' then Some 63713520000000000
      else None)"



section \<open>Launch: lemmas on the admission loop\<close>



lemma launch_loop_unbound:
  "launch_loop L C label writeonly pbsdir fnq None ncalls task_list tr =
     \<lparr>raised = Some NameError, events = tr, remaining = task_list, count_calls = ncalls\<rparr>"
  by (subst launch_loop.simps) simp


lemmas launch_eval = launch_tasks_def launch_loop.simps Let_def launch_call_args_def
  launch_success_def launch_logs_def demo_launcher_def demo_cluster_def task_label_def

section \<open>Launch: the claims\<close>

text \<open>
  Claim C1. The claim: without \<^verbatim>\<open>writeonly\<close> and \<^verbatim>\<open>force_no_qsub\<close>, the job count
  of the cluster is strictly below the queue limit immediately before every submission,
  because the count read after each submission decides the admission of the next task.
  The code reads the count after each submission into \<^verbatim>\<open>cur_job_count\<close> and goes on
  testing \<^verbatim>\<open>cjobs\<close>, the count read before the loop. With a limit of 1, a first read of
  0 and later reads of 1, both tasks are submitted: the second submission follows a read
  of 1, which is not below the limit.
\<close>

theorem launch_tasks_admits_on_stale_count:
  "events (launch_tasks (demo_launcher 1 ''xnat'') (demo_cluster counts_rising) task_label
             [''t1'', ''t2''] False None False)
     = [CountJobs 0, CommandFound,
        Launch ''t2'' (StoreLaunch ''/jobs'' None ''bae'' ''http://xnat'' False None False),
        CountJobs 1,
        Launch ''t1'' (StoreLaunch ''/jobs'' None ''bae'' ''http://xnat'' False None False),
        CountJobs 1]
   \<and> \<not> admission_respected 1 None
         (events (launch_tasks (demo_launcher 1 ''xnat'') (demo_cluster counts_rising) task_label
                    [''t1'', ''t2''] False None False))"
  by (simp add: launch_eval counts_rising_def)




text \<open>
  Claim C9. With \<^verbatim>\<open>force_no_qsub\<close> the variable \<open>cjobs\<close> is never assigned, and the
  first evaluation of the loop condition raises \<^verbatim>\<open>NameError\<close>: for every task list, the
  empty one included, and whatever \<^verbatim>\<open>writeonly\<close> is, the call ends with that exception,
  having launched nothing and called nothing on the cluster.
\<close>

theorem launch_tasks_force_no_qsub:
  "launch_tasks L C label task_list writeonly pbsdir True =
     \<lparr>raised = Some NameError, events = [], remaining = task_list, count_calls = 0\<rparr>"
  by (simp add: launch_tasks_def launch_loop_unbound)



section \<open>Update: the claim\<close>






section \<open>Matching: the claim\<close>

lemma find_first_match:
  "P p \<Longrightarrow> \<forall>q \<in> set pre. \<not> P q \<Longrightarrow> find P (pre @ p # post) = Some p"
  by (induction pre) simp_all

lemma find_no_match: "\<forall>q \<in> set xs. \<not> P q \<Longrightarrow> find P xs = None"
  by (induction xs) simp_all

lemma get_project_tasks_matched:
  "Task p a \<in> set (fst (get_project_tasks valid sess_procs scan_procs assr_list))
   \<Longrightarrow> match_proc a sess_procs scan_procs = Some p \<and> a \<in> set assr_list \<and> valid a"
proof (induction assr_list)
  case Nil
  then show ?case by simp
next
  case (Cons b bs)
  then show ?case
    by (auto simp: generate_task_def split: prod.splits if_splits option.splits)
qed

text \<open>
  Claim C6. \<^verbatim>\<open>match_proc\<close> returns the first session-level processor whose
  \<open>(xsitype, name)\<close> is the assessor's \<open>(xsiType, proctype)\<close>, whatever the scan-level
  list and the later session-level entries are; when no session-level processor has that
  key it returns the first scan-level processor that has it; when none has it the result
  is \<open>None\<close>, \<^verbatim>\<open>generate_task\<close> logs one warning and returns no task, nothing is raised,
  and \<^verbatim>\<open>get_project_tasks\<close> leaves the assessor out of the task list: every task of the
  list binds a valid assessor to the processor matched for it.
\<close>

theorem match_proc_first_session_then_scan:
  "(sess_procs = pre @ p # post
      \<and> xsitype p = a_xsiType a \<and> name p = a_proctype a
      \<and> (\<forall>q \<in> set pre. \<not> (xsitype q = a_xsiType a \<and> name q = a_proctype a))
      \<longrightarrow> match_proc a sess_procs scan_procs = Some p)
   \<and> ((\<forall>q \<in> set sess_procs. \<not> (xsitype q = a_xsiType a \<and> name q = a_proctype a))
      \<and> scan_procs = pre' @ p' # post'
      \<and> xsitype p' = a_xsiType a \<and> name p' = a_proctype a
      \<and> (\<forall>q \<in> set pre'. \<not> (xsitype q = a_xsiType a \<and> name q = a_proctype a))
      \<longrightarrow> match_proc a sess_procs scan_procs = Some p')
   \<and> ((\<forall>q \<in> set sess_procs. \<not> (xsitype q = a_xsiType a \<and> name q = a_proctype a))
      \<and> (\<forall>q \<in> set scan_procs. \<not> (xsitype q = a_xsiType a \<and> name q = a_proctype a))
      \<longrightarrow> match_proc a sess_procs scan_procs = None
          \<and> generate_task a sess_procs scan_procs
              = (None, [(Warn, ''no matching processor found: '' @ a_assessor_label a)])
          \<and> fst (get_project_tasks valid sess_procs scan_procs (a # assr_list))
              = fst (get_project_tasks valid sess_procs scan_procs assr_list))
   \<and> (\<forall>t b. Task t b \<in> set (fst (get_project_tasks valid sess_procs scan_procs assr_list))
         \<longrightarrow> match_proc b sess_procs scan_procs = Some t \<and> b \<in> set assr_list \<and> valid b)"
proof -
  let ?key = "\<lambda>q. xsitype q = a_xsiType a \<and> name q = a_proctype a"
  have p1: "sess_procs = pre @ p # post
      \<and> xsitype p = a_xsiType a \<and> name p = a_proctype a
      \<and> (\<forall>q \<in> set pre. \<not> (xsitype q = a_xsiType a \<and> name q = a_proctype a))
      \<longrightarrow> match_proc a sess_procs scan_procs = Some p"
  proof
    assume h: "sess_procs = pre @ p # post
      \<and> xsitype p = a_xsiType a \<and> name p = a_proctype a
      \<and> (\<forall>q \<in> set pre. \<not> (xsitype q = a_xsiType a \<and> name q = a_proctype a))"
    then have "find ?key sess_procs = Some p"
      using find_first_match [of ?key p pre post] by simp
    then show "match_proc a sess_procs scan_procs = Some p"
      by (simp add: match_proc_def)
  qed
  have p2: "(\<forall>q \<in> set sess_procs. \<not> (xsitype q = a_xsiType a \<and> name q = a_proctype a))
      \<and> scan_procs = pre' @ p' # post'
      \<and> xsitype p' = a_xsiType a \<and> name p' = a_proctype a
      \<and> (\<forall>q \<in> set pre'. \<not> (xsitype q = a_xsiType a \<and> name q = a_proctype a))
      \<longrightarrow> match_proc a sess_procs scan_procs = Some p'"
  proof
    assume h: "(\<forall>q \<in> set sess_procs. \<not> (xsitype q = a_xsiType a \<and> name q = a_proctype a))
      \<and> scan_procs = pre' @ p' # post'
      \<and> xsitype p' = a_xsiType a \<and> name p' = a_proctype a
      \<and> (\<forall>q \<in> set pre'. \<not> (xsitype q = a_xsiType a \<and> name q = a_proctype a))"
    then have s: "find ?key sess_procs = None"
      using find_no_match [of sess_procs ?key] by simp
    from h have "find ?key scan_procs = Some p'"
      using find_first_match [of ?key p' pre' post'] by simp
    with s show "match_proc a sess_procs scan_procs = Some p'"
      by (simp add: match_proc_def)
  qed
  have p3: "(\<forall>q \<in> set sess_procs. \<not> (xsitype q = a_xsiType a \<and> name q = a_proctype a))
      \<and> (\<forall>q \<in> set scan_procs. \<not> (xsitype q = a_xsiType a \<and> name q = a_proctype a))
      \<longrightarrow> match_proc a sess_procs scan_procs = None
          \<and> generate_task a sess_procs scan_procs
              = (None, [(Warn, ''no matching processor found: '' @ a_assessor_label a)])
          \<and> fst (get_project_tasks valid sess_procs scan_procs (a # assr_list))
              = fst (get_project_tasks valid sess_procs scan_procs assr_list)"
  proof
    assume h: "(\<forall>q \<in> set sess_procs. \<not> (xsitype q = a_xsiType a \<and> name q = a_proctype a))
      \<and> (\<forall>q \<in> set scan_procs. \<not> (xsitype q = a_xsiType a \<and> name q = a_proctype a))"
    then have s: "find ?key sess_procs = None"
      using find_no_match [of sess_procs ?key] by simp
    from h have c: "find ?key scan_procs = None"
      using find_no_match [of scan_procs ?key] by simp
    from s c have none: "match_proc a sess_procs scan_procs = None"
      by (simp add: match_proc_def)
    then have gen: "generate_task a sess_procs scan_procs
              = (None, [(Warn, ''no matching processor found: '' @ a_assessor_label a)])"
      by (simp add: generate_task_def)
    have skip: "fst (get_project_tasks valid sess_procs scan_procs (a # assr_list))
              = fst (get_project_tasks valid sess_procs scan_procs assr_list)"
      using gen by (simp split: prod.splits)
    from none gen skip
    show "match_proc a sess_procs scan_procs = None
          \<and> generate_task a sess_procs scan_procs
              = (None, [(Warn, ''no matching processor found: '' @ a_assessor_label a)])
          \<and> fst (get_project_tasks valid sess_procs scan_procs (a # assr_list))
              = fst (get_project_tasks valid sess_procs scan_procs assr_list)"
      by (intro conjI)
  qed
  have p4: "\<forall>t b. Task t b \<in> set (fst (get_project_tasks valid sess_procs scan_procs assr_list))
         \<longrightarrow> match_proc b sess_procs scan_procs = Some t \<and> b \<in> set assr_list \<and> valid b"
    using get_project_tasks_matched by blast
  show ?thesis
    by (rule conjI [OF p1 conjI [OF p2 conjI [OF p3 p4]]])
qed

theorem match_proc_first_session_then_scan_witness:
  "match_proc (demo_assr ''x'' ''T'' COMPLETE PASSED)
     [demo_proc ''U'' ''proc:genProcData'' 0, demo_proc ''T'' ''proc:genProcData'' 1,
      demo_proc ''T'' ''proc:genProcData'' 2]
     [demo_proc ''T'' ''proc:genProcData'' 3]
   = Some (demo_proc ''T'' ''proc:genProcData'' 1)
   \<and> generate_task (demo_assr ''x'' ''V'' COMPLETE PASSED)
       [demo_proc ''U'' ''proc:genProcData'' 0] [demo_proc ''T'' ''proc:genProcData'' 3]
     = (None, [(Warn, ''no matching processor found: x'')])"
proof -
  let ?a = "demo_assr ''x'' ''T'' COMPLETE PASSED"
  let ?b = "demo_assr ''x'' ''V'' COMPLETE PASSED"
  let ?u = "demo_proc ''U'' ''proc:genProcData'' 0"
  let ?t1 = "demo_proc ''T'' ''proc:genProcData'' 1"
  let ?t2 = "demo_proc ''T'' ''proc:genProcData'' 2"
  let ?t3 = "demo_proc ''T'' ''proc:genProcData'' 3"
  have h1: "[?u, ?t1, ?t2] = [?u] @ ?t1 # [?t2]
      \<and> xsitype ?t1 = a_xsiType ?a \<and> name ?t1 = a_proctype ?a
      \<and> (\<forall>q \<in> set [?u]. \<not> (xsitype q = a_xsiType ?a \<and> name q = a_proctype ?a))"
    by (simp add: demo_proc_def demo_assr_def)
  have h3: "(\<forall>q \<in> set [?u]. \<not> (xsitype q = a_xsiType ?b \<and> name q = a_proctype ?b))
      \<and> (\<forall>q \<in> set [?t3]. \<not> (xsitype q = a_xsiType ?b \<and> name q = a_proctype ?b))"
    by (simp add: demo_proc_def demo_assr_def)
  have m: "match_proc ?a [?u, ?t1, ?t2] [?t3] = Some ?t1"
    using match_proc_first_session_then_scan [of "[?u, ?t1, ?t2]" "[?u]" ?t1 "[?t2]" ?a "[?t3]"] h1
    by blast
  have g: "generate_task ?b [?u] [?t3]
      = (None, [(Warn, ''no matching processor found: '' @ a_assessor_label ?b)])"
    using match_proc_first_session_then_scan [of "[?u]" _ _ _ ?b "[?t3]"] h3
    by blast
  from m g show ?thesis by (simp add: demo_assr_def)
qed



section \<open>Build decisions: the claims\<close>

lemma diskq_build_returns:
  assumes "\<forall>n. xtask_update_status env n = Returns ()"
    and "\<forall>n. \<exists>st. xtask_build_task env n = Returns st"
  shows "diskq_build env n p =
     (None, (if (case p of None \<Rightarrow> False | Some a \<Rightarrow> a_qcstatus a = RERUN \<or> a_qcstatus a = REPROC)
             then [TaskUpdateStatus n] else []) @ [BuildTask n])"
proof -
  obtain st where "xtask_build_task env n = Returns st"
    using assms(2) by blast
  then show ?thesis
    using assms(1) by (cases p) (auto simp: diskq_build_def)
qed

text \<open>
  Claim C3. The claim: in the disk-queue modes a task is built if and only if no
  assessor with the generated name exists, or the existing assessor has ProcStatus
  NEED_INPUTS or QcStatus RERUN or REPROC, with a refresh first in the last case, and
  otherwise the context is skipped as already enqueued, identically at session level and
  at scan level. The session-level code does this. The scan-level code tests the
  ProcStatus against NEED_INPUTS and NEED_TO_RUN: for an existing assessor with
  ProcStatus NEED_TO_RUN and QcStatus JOB_PENDING, a task that is already enqueued, it
  builds the task again, where the session-level code on the same assessor skips it.
\<close>

theorem diskq_scan_level_builds_need_to_run:
  "BuildTask ''x''
     \<in> set (snd (build_scan_processor (demo_launcher 5 ''diskq-xnat'') demo_build_env
                   (demo_cscan NEED_TO_RUN JOB_PENDING) (demo_scan_proc 0 JOB_PENDING)))
   \<and> BuildTask ''x''
     \<notin> set (snd (build_session_processor (demo_launcher 5 ''diskq-xnat'') demo_build_env
                   (demo_csess NEED_TO_RUN JOB_PENDING) (demo_sess_proc 0 JOB_PENDING)))"
  by (simp add: build_scan_processor_def build_session_processor_def diskq_build_def
      demo_launcher_def demo_build_env_def demo_cscan_def demo_csess_def demo_scan_proc_def
      demo_sess_proc_def demo_assr_def demo_sess_def)

text \<open>
  The disk-queue decision of the code at the two levels, for a processor that should
  run, when the refresh and the build of the task return: the task is built when no
  assessor with the generated name is found, or the assessor found has ProcStatus
  NEED_INPUTS (at scan level also NEED_TO_RUN) or QcStatus RERUN or REPROC; the refresh
  comes first, and only then, when the assessor found has QcStatus RERUN or REPROC;
  otherwise nothing is done.
\<close>

lemma diskq_build_decision:
  assumes "launcher_type L \<in> set [''diskq-xnat'', ''diskq-combined'']"
    and "\<forall>n. xtask_update_status env n = Returns ()"
    and "\<forall>n. \<exists>st. xtask_build_task env n = Returns st"
    and "should_run sess_proc (cs_info csess)"
    and "should_run scan_proc (cscan_info cscan)"
    and "n = get_assessor_name sess_proc csess"
    and "p = find (\<lambda>assr. a_label assr = n) (cs_assessors csess)"
    and "n' = get_assessor_name scan_proc cscan"
    and "p' = find (\<lambda>assr. a_label assr = n') (rev (cs_assessors (cscan_parent cscan)))"
  shows "(BuildTask n \<in> set (snd (build_session_processor L env csess sess_proc))
            \<longleftrightarrow> (case p of None \<Rightarrow> True
                 | Some a \<Rightarrow> a_procstatus a = NEED_INPUTS
                            \<or> a_qcstatus a = RERUN \<or> a_qcstatus a = REPROC))
       \<and> (BuildTask n' \<in> set (snd (build_scan_processor L env cscan scan_proc))
            \<longleftrightarrow> (case p' of None \<Rightarrow> True
                 | Some a \<Rightarrow> a_procstatus a = NEED_INPUTS \<or> a_procstatus a = NEED_TO_RUN
                            \<or> a_qcstatus a = RERUN \<or> a_qcstatus a = REPROC))
       \<and> build_session_processor L env csess sess_proc =
           (None,
            case p of
              None \<Rightarrow> [BuildTask n]
            | Some a \<Rightarrow>
                if a_qcstatus a = RERUN \<or> a_qcstatus a = REPROC
                then [TaskUpdateStatus n, BuildTask n]
                else if a_procstatus a = NEED_INPUTS then [BuildTask n] else [])
       \<and> build_scan_processor L env cscan scan_proc =
           (None,
            case p' of
              None \<Rightarrow> [BuildTask n']
            | Some a \<Rightarrow>
                if a_qcstatus a = RERUN \<or> a_qcstatus a = REPROC
                then [TaskUpdateStatus n', BuildTask n']
                else if a_procstatus a = NEED_INPUTS \<or> a_procstatus a = NEED_TO_RUN
                  then [BuildTask n'] else [])"
proof -
  note db = diskq_build_returns [OF assms(2) assms(3)]
  have sess: "build_session_processor L env csess sess_proc =
           (None,
            case p of
              None \<Rightarrow> [BuildTask n]
            | Some a \<Rightarrow>
                if a_qcstatus a = RERUN \<or> a_qcstatus a = REPROC
                then [TaskUpdateStatus n, BuildTask n]
                else if a_procstatus a = NEED_INPUTS then [BuildTask n] else [])"
    using assms(1,4) assms(6) [symmetric] assms(7) [symmetric]
    by (simp add: build_session_processor_def db Let_def split: option.splits)
  have scan: "build_scan_processor L env cscan scan_proc =
           (None,
            case p' of
              None \<Rightarrow> [BuildTask n']
            | Some a \<Rightarrow>
                if a_qcstatus a = RERUN \<or> a_qcstatus a = REPROC
                then [TaskUpdateStatus n', BuildTask n']
                else if a_procstatus a = NEED_INPUTS \<or> a_procstatus a = NEED_TO_RUN
                  then [BuildTask n'] else [])"
    using assms(1,5) assms(8) [symmetric] assms(9) [symmetric]
    by (simp add: build_scan_processor_def db Let_def split: option.splits)
  have iff_sess: "BuildTask n \<in> set (snd (build_session_processor L env csess sess_proc))
            \<longleftrightarrow> (case p of None \<Rightarrow> True
                 | Some a \<Rightarrow> a_procstatus a = NEED_INPUTS
                            \<or> a_qcstatus a = RERUN \<or> a_qcstatus a = REPROC)"
    unfolding sess by (simp split: option.splits)
  have iff_scan: "BuildTask n' \<in> set (snd (build_scan_processor L env cscan scan_proc))
            \<longleftrightarrow> (case p' of None \<Rightarrow> True
                 | Some a \<Rightarrow> a_procstatus a = NEED_INPUTS \<or> a_procstatus a = NEED_TO_RUN
                            \<or> a_qcstatus a = RERUN \<or> a_qcstatus a = REPROC)"
    unfolding scan by (simp split: option.splits)
  show ?thesis
    by (rule conjI [OF iff_sess conjI [OF iff_scan conjI [OF sess scan]]])
qed

lemma diskq_build_decision_example:
  "build_session_processor (demo_launcher 5 ''diskq-combined'') demo_build_env
     (demo_csess COMPLETE RERUN) (demo_sess_proc 0 JOB_PENDING)
     = (None, [TaskUpdateStatus ''x'', BuildTask ''x''])
   \<and> build_scan_processor (demo_launcher 5 ''diskq-combined'') demo_build_env
     (demo_cscan COMPLETE PASSED) (demo_scan_proc 0 JOB_PENDING)
     = (None, [])"
proof -
  let ?L = "demo_launcher 5 ''diskq-combined''"
  let ?cs = "demo_csess COMPLETE RERUN"
  let ?cn = "demo_cscan COMPLETE PASSED"
  let ?sp = "demo_sess_proc 0 JOB_PENDING"
  let ?cp = "demo_scan_proc 0 JOB_PENDING"
  have a1: "launcher_type ?L \<in> set [''diskq-xnat'', ''diskq-combined'']"
    by (simp add: demo_launcher_def)
  have a2: "\<forall>n. xtask_update_status demo_build_env n = Returns ()"
    by (simp add: demo_build_env_def)
  have a3: "\<forall>n. \<exists>st. xtask_build_task demo_build_env n = Returns st"
    by (simp add: demo_build_env_def)
  have a4: "should_run ?sp (cs_info ?cs)"
    by (simp add: demo_sess_proc_def)
  have a5: "should_run ?cp (cscan_info ?cn)"
    by (simp add: demo_scan_proc_def)
  have a6: "''x'' = get_assessor_name ?sp ?cs"
    by (simp add: demo_sess_proc_def)
  have a7: "Some (demo_assr ''x'' ''T'' COMPLETE RERUN)
              = find (\<lambda>assr. a_label assr = ''x'') (cs_assessors ?cs)"
    by (simp add: demo_csess_def demo_assr_def)
  have a8: "''x'' = get_assessor_name ?cp ?cn"
    by (simp add: demo_scan_proc_def)
  have a9: "Some (demo_assr ''x'' ''T'' COMPLETE PASSED)
              = find (\<lambda>assr. a_label assr = ''x'') (rev (cs_assessors (cscan_parent ?cn)))"
    by (simp add: demo_cscan_def demo_csess_def demo_assr_def)
  show ?thesis
    using diskq_build_decision [OF a1 a2 a3 a4 a5 a6 a7 a8 a9]
    by (simp add: demo_assr_def)
qed

lemma set_inputs_status_returns:
  assumes "\<forall>t st. set_status env t st = Returns ()"
    and "\<forall>t qc. set_qcstatus env t qc = Returns ()"
  shows "set_inputs_status env caught t h q =
     (if h = 1 then [SetStatus t NEED_TO_RUN, SetQcStatus t JOB_PENDING]
      else if h = -1 then [SetStatus t NO_DATA, SetQcStatus t q]
      else [SetQcStatus t q])"
  using assms by (simp add: set_inputs_status_def try_set_status_def try_set_qcstatus_def)

lemma set_inputs_status_only_via:
  "(SetStatus t' NEED_TO_RUN \<in> set (set_inputs_status env caught t h q) \<longrightarrow> h = 1)
   \<and> (SetStatus t' NO_DATA \<in> set (set_inputs_status env caught t h q) \<longrightarrow> h = -1)"
  by (auto simp: set_inputs_status_def try_set_status_def try_set_qcstatus_def
      split: outcome.splits if_splits)

lemma diskq_build_no_set_status:
  "SetStatus t st \<notin> set (snd (diskq_build env n p))"
  by (auto simp: diskq_build_def split: outcome.splits option.splits if_splits)

lemma session_set_status_origin:
  "SetStatus t st \<in> set (snd (build_session_processor L env csess sess_proc))
   \<Longrightarrow> SetStatus t st \<in> set (set_inputs_status env
          (''Caught exception building session '' @ s_session_label (cs_info csess)
           @ '' while setting assessor status'')
          (get_task sess_proc csess) (fst (has_inputs sess_proc csess))
          (snd (has_inputs sess_proc csess)))"
  by (auto simp: build_session_processor_def Let_def diskq_build_no_set_status
      split: if_splits prod.splits)

lemma scan_set_status_origin:
  "SetStatus t st \<in> set (snd (build_scan_processor L env cscan scan_proc))
   \<Longrightarrow> SetStatus t st \<in> set (set_inputs_status env
          (''Caught exception building sessions '' @ sc_session_label (cscan_info cscan))
          (get_task scan_proc cscan) (fst (has_inputs scan_proc cscan))
          (snd (has_inputs scan_proc cscan)))"
  by (auto simp: build_scan_processor_def Let_def diskq_build_no_set_status
      split: if_splits prod.splits)

text \<open>
  Claim C5, as stated: a ready result sets ProcStatus to NEED_TO_RUN and QcStatus to
  JOB_PENDING. It fails when a setter raises: the exception is caught and logged, and the
  writes after it are not made. With a QC setter that raises, a ready result sets
  ProcStatus to NEED_TO_RUN and leaves QcStatus as it was.
\<close>

theorem store_direct_ready_counterexample:
  "build_session_processor (demo_launcher 5 ''xnat'') demo_build_env_qc_fails
     (demo_csess NEED_INPUTS NEEDS_QC) (demo_sess_proc 1 NEEDS_QC)
     = (None,
        [SetStatus ''x'' NEED_TO_RUN,
         Logged Critical ''Caught exception building session s1 while setting assessor status'',
         Logged Critical ''Exception class XnatError caught with message timeout''])
   \<and> SetQcStatus ''x'' JOB_PENDING
       \<notin> set (snd (build_session_processor (demo_launcher 5 ''xnat'') demo_build_env_qc_fails
                      (demo_csess NEED_INPUTS NEEDS_QC) (demo_sess_proc 1 NEEDS_QC)))"
  by (simp add: build_session_processor_def set_inputs_status_def try_set_status_def
      try_set_qcstatus_def demo_launcher_def demo_build_env_qc_fails_def demo_csess_def
      demo_sess_proc_def demo_assr_def demo_sess_def demo_exc_def)

text \<open>
  Claim C5, amended: in the store-direct modes, for a processor that should run and whose
  assessor does not exist yet or has ProcStatus NEED_INPUTS, when the calls of the two
  setters return: readiness 1 (ready) sets ProcStatus to NEED_TO_RUN and then QcStatus to
  JOB_PENDING, readiness -1 (permanently blocked) sets ProcStatus to NO_DATA and then
  QcStatus to the value the processor supplied, and any other readiness (pending) sets
  that QcStatus only. This holds at session level and at scan level. Whatever the
  launcher type, the assessors and the setters do, the build sets a ProcStatus to
  NEED_TO_RUN only after a ready result and to NO_DATA only after a permanently-blocked
  result.
\<close>

theorem store_direct_readiness:
  "(launcher_type L \<notin> set [''diskq-xnat'', ''diskq-combined'']
      \<and> (\<forall>t st. set_status env t st = Returns ())
      \<and> (\<forall>t qc. set_qcstatus env t qc = Returns ())
      \<and> should_run sess_proc (cs_info csess)
      \<and> (case find (\<lambda>assr. a_label assr = get_assessor_name sess_proc csess)
                 (cs_assessors csess) of
           None \<Rightarrow> True | Some a \<Rightarrow> a_procstatus a = NEED_INPUTS)
      \<and> has_inputs sess_proc csess = (h, q)
      \<longrightarrow> build_session_processor L env csess sess_proc =
           (None,
            if h = 1 then [SetStatus (get_task sess_proc csess) NEED_TO_RUN,
                           SetQcStatus (get_task sess_proc csess) JOB_PENDING]
            else if h = -1 then [SetStatus (get_task sess_proc csess) NO_DATA,
                                 SetQcStatus (get_task sess_proc csess) q]
            else [SetQcStatus (get_task sess_proc csess) q]))
   \<and> (launcher_type L \<notin> set [''diskq-xnat'', ''diskq-combined'']
      \<and> (\<forall>t st. set_status env t st = Returns ())
      \<and> (\<forall>t qc. set_qcstatus env t qc = Returns ())
      \<and> should_run scan_proc (cscan_info cscan)
      \<and> (case find (\<lambda>assr. a_label assr = get_assessor_name scan_proc cscan)
                 (rev (cs_assessors (cscan_parent cscan))) of
           None \<Rightarrow> True | Some a \<Rightarrow> a_procstatus a = NEED_INPUTS)
      \<and> has_inputs scan_proc cscan = (h', q')
      \<longrightarrow> build_scan_processor L env cscan scan_proc =
           (None,
            if h' = 1 then [SetStatus (get_task scan_proc cscan) NEED_TO_RUN,
                            SetQcStatus (get_task scan_proc cscan) JOB_PENDING]
            else if h' = -1 then [SetStatus (get_task scan_proc cscan) NO_DATA,
                                  SetQcStatus (get_task scan_proc cscan) q']
            else [SetQcStatus (get_task scan_proc cscan) q']))
   \<and> (\<forall>t. SetStatus t NEED_TO_RUN \<in> set (snd (build_session_processor L env csess sess_proc))
          \<longrightarrow> fst (has_inputs sess_proc csess) = 1)
   \<and> (\<forall>t. SetStatus t NO_DATA \<in> set (snd (build_session_processor L env csess sess_proc))
          \<longrightarrow> fst (has_inputs sess_proc csess) = -1)
   \<and> (\<forall>t. SetStatus t NEED_TO_RUN \<in> set (snd (build_scan_processor L env cscan scan_proc))
          \<longrightarrow> fst (has_inputs scan_proc cscan) = 1)
   \<and> (\<forall>t. SetStatus t NO_DATA \<in> set (snd (build_scan_processor L env cscan scan_proc))
          \<longrightarrow> fst (has_inputs scan_proc cscan) = -1)"
proof -
  have p1: "launcher_type L \<notin> set [''diskq-xnat'', ''diskq-combined'']
      \<and> (\<forall>t st. set_status env t st = Returns ())
      \<and> (\<forall>t qc. set_qcstatus env t qc = Returns ())
      \<and> should_run sess_proc (cs_info csess)
      \<and> (case find (\<lambda>assr. a_label assr = get_assessor_name sess_proc csess)
                 (cs_assessors csess) of
           None \<Rightarrow> True | Some a \<Rightarrow> a_procstatus a = NEED_INPUTS)
      \<and> has_inputs sess_proc csess = (h, q)
      \<longrightarrow> build_session_processor L env csess sess_proc =
           (None,
            if h = 1 then [SetStatus (get_task sess_proc csess) NEED_TO_RUN,
                           SetQcStatus (get_task sess_proc csess) JOB_PENDING]
            else if h = -1 then [SetStatus (get_task sess_proc csess) NO_DATA,
                                 SetQcStatus (get_task sess_proc csess) q]
            else [SetQcStatus (get_task sess_proc csess) q])"
    by (clarsimp simp: build_session_processor_def Let_def set_inputs_status_returns)
  have p2: "launcher_type L \<notin> set [''diskq-xnat'', ''diskq-combined'']
      \<and> (\<forall>t st. set_status env t st = Returns ())
      \<and> (\<forall>t qc. set_qcstatus env t qc = Returns ())
      \<and> should_run scan_proc (cscan_info cscan)
      \<and> (case find (\<lambda>assr. a_label assr = get_assessor_name scan_proc cscan)
                 (rev (cs_assessors (cscan_parent cscan))) of
           None \<Rightarrow> True | Some a \<Rightarrow> a_procstatus a = NEED_INPUTS)
      \<and> has_inputs scan_proc cscan = (h', q')
      \<longrightarrow> build_scan_processor L env cscan scan_proc =
           (None,
            if h' = 1 then [SetStatus (get_task scan_proc cscan) NEED_TO_RUN,
                            SetQcStatus (get_task scan_proc cscan) JOB_PENDING]
            else if h' = -1 then [SetStatus (get_task scan_proc cscan) NO_DATA,
                                  SetQcStatus (get_task scan_proc cscan) q']
            else [SetQcStatus (get_task scan_proc cscan) q'])"
    by (clarsimp simp: build_scan_processor_def Let_def set_inputs_status_returns)
  have p3: "\<forall>t. SetStatus t NEED_TO_RUN \<in> set (snd (build_session_processor L env csess sess_proc))
          \<longrightarrow> fst (has_inputs sess_proc csess) = 1"
    using session_set_status_origin set_inputs_status_only_via by blast
  have p4: "\<forall>t. SetStatus t NO_DATA \<in> set (snd (build_session_processor L env csess sess_proc))
          \<longrightarrow> fst (has_inputs sess_proc csess) = -1"
    using session_set_status_origin set_inputs_status_only_via by blast
  have p5: "\<forall>t. SetStatus t NEED_TO_RUN \<in> set (snd (build_scan_processor L env cscan scan_proc))
          \<longrightarrow> fst (has_inputs scan_proc cscan) = 1"
    using scan_set_status_origin set_inputs_status_only_via by blast
  have p6: "\<forall>t. SetStatus t NO_DATA \<in> set (snd (build_scan_processor L env cscan scan_proc))
          \<longrightarrow> fst (has_inputs scan_proc cscan) = -1"
    using scan_set_status_origin set_inputs_status_only_via by blast
  show ?thesis
    by (rule conjI [OF p1 conjI [OF p2 conjI [OF p3 conjI [OF p4 conjI [OF p5 p6]]]]])
qed

theorem store_direct_readiness_witness:
  "build_session_processor (demo_launcher 5 ''xnat'') demo_build_env
     (demo_csess NEED_INPUTS JOB_PENDING) (demo_sess_proc 1 NEEDS_QC)
     = (None, [SetStatus ''x'' NEED_TO_RUN, SetQcStatus ''x'' JOB_PENDING])
   \<and> build_scan_processor (demo_launcher 5 ''xnat'') demo_build_env
     (demo_cscan NEED_INPUTS JOB_PENDING) (demo_scan_proc (-1) DATA_ABSENT)
     = (None, [SetStatus ''x'' NO_DATA, SetQcStatus ''x'' DATA_ABSENT])"
proof -
  let ?L = "demo_launcher 5 ''xnat''"
  let ?cs = "demo_csess NEED_INPUTS JOB_PENDING"
  let ?cn = "demo_cscan NEED_INPUTS JOB_PENDING"
  let ?sp = "demo_sess_proc 1 NEEDS_QC"
  let ?cp = "demo_scan_proc (-1) DATA_ABSENT"
  have s: "launcher_type ?L \<notin> set [''diskq-xnat'', ''diskq-combined'']
      \<and> (\<forall>t st. set_status demo_build_env t st = Returns ())
      \<and> (\<forall>t qc. set_qcstatus demo_build_env t qc = Returns ())
      \<and> should_run ?sp (cs_info ?cs)
      \<and> (case find (\<lambda>assr. a_label assr = get_assessor_name ?sp ?cs) (cs_assessors ?cs) of
           None \<Rightarrow> True | Some a \<Rightarrow> a_procstatus a = NEED_INPUTS)
      \<and> has_inputs ?sp ?cs = (1, NEEDS_QC)"
    by (simp add: demo_launcher_def demo_build_env_def demo_sess_proc_def demo_csess_def
        demo_assr_def)
  have c: "launcher_type ?L \<notin> set [''diskq-xnat'', ''diskq-combined'']
      \<and> (\<forall>t st. set_status demo_build_env t st = Returns ())
      \<and> (\<forall>t qc. set_qcstatus demo_build_env t qc = Returns ())
      \<and> should_run ?cp (cscan_info ?cn)
      \<and> (case find (\<lambda>assr. a_label assr = get_assessor_name ?cp ?cn)
                 (rev (cs_assessors (cscan_parent ?cn))) of
           None \<Rightarrow> True | Some a \<Rightarrow> a_procstatus a = NEED_INPUTS)
      \<and> has_inputs ?cp ?cn = (-1, DATA_ABSENT)"
    by (simp add: demo_launcher_def demo_build_env_def demo_scan_proc_def demo_cscan_def
        demo_csess_def demo_assr_def)
  note inst = store_direct_readiness [of ?L demo_build_env ?sp ?cs 1 NEEDS_QC ?cp ?cn "-1"
      DATA_ABSENT]
  from inst s have r1: "build_session_processor ?L demo_build_env ?cs ?sp =
      (None, if (1::int) = 1 then [SetStatus (get_task ?sp ?cs) NEED_TO_RUN,
                                   SetQcStatus (get_task ?sp ?cs) JOB_PENDING]
             else if (1::int) = -1 then [SetStatus (get_task ?sp ?cs) NO_DATA,
                                         SetQcStatus (get_task ?sp ?cs) NEEDS_QC]
             else [SetQcStatus (get_task ?sp ?cs) NEEDS_QC])"
    by blast
  from inst c have r2: "build_scan_processor ?L demo_build_env ?cn ?cp =
      (None, if (-1::int) = 1 then [SetStatus (get_task ?cp ?cn) NEED_TO_RUN,
                                    SetQcStatus (get_task ?cp ?cn) JOB_PENDING]
             else if (-1::int) = -1 then [SetStatus (get_task ?cp ?cn) NO_DATA,
                                          SetQcStatus (get_task ?cp ?cn) DATA_ABSENT]
             else [SetQcStatus (get_task ?cp ?cn) DATA_ABSENT])"
    by blast
  from r1 r2 show ?thesis
    by (simp add: demo_sess_proc_def demo_scan_proc_def)
qed



section \<open>Staleness: the claim\<close>

lemma get_lastupdated_absent:
  "drop (length UPDATE_PREFIX) (s_last_updated info) = [] \<Longrightarrow> get_lastupdated strptime info = Inr None"
  by (simp add: get_lastupdated_def)

lemma get_lastupdated_present:
  "drop (length UPDATE_PREFIX) (s_last_updated info) \<noteq> [] \<Longrightarrow>
   get_lastupdated strptime info =
     (case strptime (drop (length UPDATE_PREFIX) (s_last_updated info)) of
        None \<Rightarrow> Inl ValueError | Some t \<Rightarrow> Inr (Some t))"
  by (simp add: get_lastupdated_def)

text \<open>
  Claim C7, as stated: the session is skipped if and only if the marker is present,
  last-modified is strictly earlier than the marker and the current time is strictly
  earlier than last-modified plus \<^verbatim>\<open>max_age\<close> days. It fails for a \<^verbatim>\<open>max_age\<close> of
  4000000 days: the three conditions hold, the date last-modified plus \<^verbatim>\<open>max_age\<close>
  days is after year 9999, the sum raises \<^verbatim>\<open>OverflowError\<close> and the session is not
  skipped.
\<close>

theorem staleness_overflow_counterexample:
  "session_decision ((demo_launcher 5 ''xnat'')\<lparr>max_age := 4000000\<rparr>) demo_strptime
     63713433600000001 False None None
     (demo_sess ''A'' ''2020-01-01 00:00:00.0'' ''updated--2020-01-02 00:00:00'')
     = Inl OverflowError
   \<and> drop (length UPDATE_PREFIX)
       (s_last_updated (demo_sess ''A'' ''2020-01-01 00:00:00.0''
                          ''updated--2020-01-02 00:00:00'')) = ''2020-01-02 00:00:00''
   \<and> demo_strptime ''2020-01-02 00:00:00'' = Some 63713520000000000
   \<and> demo_strptime (take 19 (s_last_modified (demo_sess ''A'' ''2020-01-01 00:00:00.0''
                                                 ''updated--2020-01-02 00:00:00'')))
       = Some 63713433600000000
   \<and> (63713433600000000 :: int) < 63713520000000000
   \<and> (63713433600000001 :: int) < 63713433600000000 + 4000000 * 86400000000"
  by (simp add: session_decision_def get_lastupdated_def timedelta_days_def datetime_add_def
      DATETIME_MAX_def UPDATE_PREFIX_def truthy_def demo_launcher_def demo_strptime_def
      demo_sess_def)

text \<open>
  Claim C7, amended: with no session filter, tracking on and no new processor type, when
  \<^verbatim>\<open>max_age\<close> has a magnitude of at most 999999999 days and the date last-modified plus
  \<^verbatim>\<open>max_age\<close> days lies in the range of dates (years 1 to 9999), the session is skipped
  if and only if the last-updated marker is present (the text after the prefix is not
  empty), both timestamps parse, last-modified is strictly earlier than the marker and
  the current time is strictly earlier than last-modified plus \<^verbatim>\<open>max_age\<close> days. A
  session whose marker is absent is never skipped by this rule. The other skip, on the
  modification delta, is not reachable under these conditions.
\<close>

theorem staleness_skip_iff:
  assumes "\<not> skip_lastupdate L" and "\<not> has_new" and "\<not> truthy sessions_local"
    and "\<bar>max_age L\<bar> \<le> 999999999"
    and "\<forall>lm. strptime (take 19 (s_last_modified info)) = Some lm
           \<longrightarrow> 0 \<le> lm + max_age L * 86400000000
               \<and> lm + max_age L * 86400000000 \<le> DATETIME_MAX"
  shows "(session_decision L strptime now has_new sessions_local lastmod_delta info
            = Inr SkipStale
          \<longleftrightarrow> (\<exists>last_mod last_up.
                 drop (length UPDATE_PREFIX) (s_last_updated info) \<noteq> []
                 \<and> strptime (take 19 (s_last_modified info)) = Some last_mod
                 \<and> strptime (drop (length UPDATE_PREFIX) (s_last_updated info)) = Some last_up
                 \<and> last_mod < last_up
                 \<and> now < last_mod + max_age L * 86400000000))
       \<and> (drop (length UPDATE_PREFIX) (s_last_updated info) = []
          \<longrightarrow> session_decision L strptime now has_new sessions_local lastmod_delta info
                \<noteq> Inr SkipStale)
       \<and> session_decision L strptime now has_new sessions_local lastmod_delta info
           \<noteq> Inr SkipNotModified"
proof -
  have td: "timedelta_days (max_age L) = Inr (max_age L * 86400000000)"
    using assms(4) by (simp add: timedelta_days_def)
  show ?thesis
  proof (cases "strptime (take 19 (s_last_modified info))")
    case None
    then show ?thesis
      using assms(1-3) by (simp add: session_decision_def)
  next
    case (Some lm)
    then have add: "datetime_add lm (max_age L * 86400000000)
                      = Inr (lm + max_age L * 86400000000)"
      using assms(5) by (simp add: datetime_add_def)
    show ?thesis
    proof (cases "drop (length UPDATE_PREFIX) (s_last_updated info) = []")
      case True
      then show ?thesis
        using assms(1-3) Some
        by (simp add: session_decision_def get_lastupdated_absent)
    next
      case False
      note present = get_lastupdated_present [OF False, of strptime]
      show ?thesis
      proof (cases "strptime (drop (length UPDATE_PREFIX) (s_last_updated info))")
        case None
        then show ?thesis
          using assms(1-3) Some False
          by (simp add: session_decision_def present)
      next
        case (Some lu)
        then show ?thesis
          using assms(1-3) \<open>strptime (take 19 (s_last_modified info)) = Some lm\<close> False td add
          by (simp add: session_decision_def present)
      qed
    qed
  qed
qed

theorem staleness_skip_iff_witness:
  "session_decision (demo_launcher 5 ''xnat'') demo_strptime 63713433600000001 False None None
     (demo_sess ''A'' ''2020-01-01 00:00:00.0'' ''updated--2020-01-02 00:00:00'')
     = Inr SkipStale
   \<and> session_decision (demo_launcher 5 ''xnat'') demo_strptime 63713433600000001 False None None
     (demo_sess ''A'' ''2020-01-01 00:00:00.0'' [])
     \<noteq> Inr SkipStale"
proof -
  let ?L = "demo_launcher 5 ''xnat''"
  let ?s = "demo_sess ''A'' ''2020-01-01 00:00:00.0'' ''updated--2020-01-02 00:00:00''"
  let ?n = "demo_sess ''A'' ''2020-01-01 00:00:00.0'' []"
  have a1: "\<not> skip_lastupdate ?L" by (simp add: demo_launcher_def)
  have a2: "\<not> False" by simp
  have a3: "\<not> truthy None" by (simp add: truthy_def)
  have a4: "\<bar>max_age ?L\<bar> \<le> 999999999" by (simp add: demo_launcher_def)
  have a5: "\<forall>lm. demo_strptime (take 19 (s_last_modified ?s)) = Some lm
           \<longrightarrow> 0 \<le> lm + max_age ?L * 86400000000
               \<and> lm + max_age ?L * 86400000000 \<le> DATETIME_MAX"
    by (simp add: demo_strptime_def demo_sess_def demo_launcher_def DATETIME_MAX_def)
  have a5': "\<forall>lm. demo_strptime (take 19 (s_last_modified ?n)) = Some lm
           \<longrightarrow> 0 \<le> lm + max_age ?L * 86400000000
               \<and> lm + max_age ?L * 86400000000 \<le> DATETIME_MAX"
    by (simp add: demo_strptime_def demo_sess_def demo_launcher_def DATETIME_MAX_def)
  have rhs: "\<exists>last_mod last_up.
                 drop (length UPDATE_PREFIX) (s_last_updated ?s) \<noteq> []
                 \<and> demo_strptime (take 19 (s_last_modified ?s)) = Some last_mod
                 \<and> demo_strptime (drop (length UPDATE_PREFIX) (s_last_updated ?s)) = Some last_up
                 \<and> last_mod < last_up
                 \<and> 63713433600000001 < last_mod + max_age ?L * 86400000000"
    by (simp add: demo_strptime_def demo_sess_def demo_launcher_def UPDATE_PREFIX_def)
  have absent: "drop (length UPDATE_PREFIX) (s_last_updated ?n) = []"
    by (simp add: demo_sess_def)
  from staleness_skip_iff [where L = ?L and has_new = False and sessions_local = None
      and strptime = demo_strptime and info = ?s and now = 63713433600000001
      and lastmod_delta = None, OF a1 a2 a3 a4 a5] rhs
  have r1: "session_decision ?L demo_strptime 63713433600000001 False None None ?s = Inr SkipStale"
    by blast
  from staleness_skip_iff [where L = ?L and has_new = False and sessions_local = None
      and strptime = demo_strptime and info = ?n and now = 63713433600000001
      and lastmod_delta = None, OF a1 a2 a3 a4 a5'] absent
  have r2: "session_decision ?L demo_strptime 63713433600000001 False None None ?n \<noteq> Inr SkipStale"
    by blast
  from r1 r2 show ?thesis by (rule conjI)
qed

section \<open>Order of the sessions: the claim\<close>





section \<open>Construction: the claim\<close>

text \<open>
  Claim C10. \<^verbatim>\<open>__init__\<close> does not read its \<^verbatim>\<open>max_age\<close> argument: two constructions
  that differ only in that argument give the same result, the same launcher or the same
  exception, and a launcher that is constructed holds the \<^verbatim>\<open>max_age\<close> of the global
  settings, which is the value the staleness policy reads.
\<close>

theorem Launcher_init_ignores_max_age:
  "Launcher_init E (A\<lparr>arg_max_age := m\<rparr>) = Launcher_init E (A\<lparr>arg_max_age := m'\<rparr>)
   \<and> (case Launcher_init E A of Inl e \<Rightarrow> True | Inr L \<Rightarrow> max_age L = get_max_age E)"
proof
  show "Launcher_init E (A\<lparr>arg_max_age := m\<rparr>) = Launcher_init E (A\<lparr>arg_max_age := m'\<rparr>)"
    by (simp add: Launcher_init_def cong: option.case_cong sum.case_cong if_cong)
  show "case Launcher_init E A of Inl e \<Rightarrow> True | Inr L \<Rightarrow> max_age L = get_max_age E"
    by (auto simp: Launcher_init_def Let_def split: option.splits sum.splits prod.splits)
qed


end
